theory Spec2Isabelle
  imports Main "HOL-Library.Sublist"
begin

section \<open>The application \<^verbatim>\<open>app.py\<close>\<close>

text \<open>
  The repository is one Flask module:
  \<^verbatim>\<open>
  app = Flask(__name__)

  @app.route('/')
  def index():
      return render_template_string(''' ... ''')

  if __name__ == '__main__':
      app.run(debug=True, host='0.0.0.0', port=5000)
  \<close>
  What the module itself fixes is translated literally: the template literal, the
  view function, the registered rule and the arguments of \<^verbatim>\<open>app.run\<close>.
  The library calls (\<^verbatim>\<open>Flask\<close>, \<^verbatim>\<open>route\<close> with Flask's request dispatch,
  \<^verbatim>\<open>render_template_string\<close>, \<^verbatim>\<open>run\<close>) are given the behaviour Flask, Werkzeug
  and Jinja2 document for them; whatever those libraries compute that the module does
  not determine (the evaluation of template directives, the files of the static folder,
  the text of the error pages, the pages of Werkzeug's debugger) is a parameter of the
  model.

  Strings are byte strings: a Python \<^verbatim>\<open>str\<close> is represented by its UTF-8 encoding,
  which is what the response carries.
\<close>

subsection \<open>The template literal (app.py, lines 7 to 28)\<close>

text \<open>
  The heading starts with the two code points U+1F3D7 U+FE0F (a building-construction
  emoji with a variation selector); in UTF-8 they are seven bytes.
\<close>

definition construction_emoji :: string where
  \<open>construction_emoji = [CHR 0xF0, CHR 0x9F, CHR 0x8F, CHR 0x97, CHR 0xEF, CHR 0xB8, CHR 0x8F]\<close>

text \<open>
  The literal opens with a line break directly after the three quotes, every line of the
  document is indented by at least four spaces, and the closing quotes stand after four
  spaces on a line of their own.
\<close>

definition index_template :: string where
  \<open>index_template =
    ''\<newline>'' @
    ''    <!DOCTYPE html>\<newline>'' @
    ''    <html>\<newline>'' @
    ''    <head>\<newline>'' @
    ''        <title>Microservices Architecture</title>\<newline>'' @
    ''        <style>\<newline>'' @
    ''            body { font-family: Arial; background: linear-gradient(135deg, #667eea 0%, #764ba2 100%); min-height: 100vh; display: flex; align-items: center; justify-content: center; }\<newline>'' @
    ''            .container { background: white; padding: 50px; border-radius: 20px; text-align: center; box-shadow: 0 20px 40px rgba(0,0,0,0.1); }\<newline>'' @
    ''            h1 { color: #333; margin-bottom: 20px; }\<newline>'' @
    ''            p { color: #666; font-size: 18px; margin-bottom: 15px; }\<newline>'' @
    ''        </style>\<newline>'' @
    ''    </head>\<newline>'' @
    ''    <body>\<newline>'' @
    ''        <div class='' @ [CHR 0x22] @ ''container'' @ [CHR 0x22] @ ''>\<newline>'' @
    ''            <h1>'' @ construction_emoji @ '' Microservices Architecture</h1>\<newline>'' @
    ''            <p>Professional microservices architecture implementation</p>\<newline>'' @
    ''            <p>Scalable, distributed system design</p>\<newline>'' @
    ''            <p>Docker containers, API Gateway, Service Discovery</p>\<newline>'' @
    ''        </div>\<newline>'' @
    ''    </body>\<newline>'' @
    ''    </html>\<newline>'' @
    ''    ''\<close>

subsection \<open>Requests, responses and the state a view could touch\<close>

text \<open>
  A request is what Flask's \<^verbatim>\<open>request\<close> object exposes: \<^verbatim>\<open>request.method\<close>
  (upper case; the field \<open>http_method\<close>), \<^verbatim>\<open>request.path\<close> (the path used for
  routing, starting with one slash), the query string, the headers and the payload.
\<close>

record request =
  http_method :: string
  path :: string
  query_string :: string
  req_headers :: "(string \<times> string) list"
  payload :: string

text \<open>
  The value of a header field as the WSGI environment holds it: field names are compared
  without regard to case, the values of a repeated field are joined by commas, and a
  field that is missing reads as the empty string.
\<close>

definition ascii_lower :: "char \<Rightarrow> char" where
  "ascii_lower c =
     (case map_of (zip ''ABCDEFGHIJKLMNOPQRSTUVWXYZ'' ''abcdefghijklmnopqrstuvwxyz'') c of
        None \<Rightarrow> c
      | Some l \<Rightarrow> l)"

definition lower :: "string \<Rightarrow> string" where
  "lower s = map ascii_lower s"

fun join :: "string \<Rightarrow> string list \<Rightarrow> string" where
  "join sep [] = []"
| "join sep [s] = s"
| "join sep (s # t # ts) = s @ sep @ join sep (t # ts)"

definition header :: "request \<Rightarrow> string \<Rightarrow> string" where
  "header req name =
     join '','' (map snd (filter (\<lambda>field. lower (fst field) = lower name) (req_headers req)))"

text \<open>
  Python's \<^verbatim>\<open>s.split(sep)\<close> for a separator of one character, and
  \<^verbatim>\<open>s.strip()\<close>, which removes white space at both ends.
\<close>

fun split_on :: "char \<Rightarrow> string \<Rightarrow> string list" where
  "split_on sep [] = [] # []"
| "split_on sep (c # cs) =
     (if c = sep then [] # split_on sep cs
      else (case split_on sep cs of
              [] \<Rightarrow> [c] # []
            | l # ls \<Rightarrow> (c # l) # ls))"

definition is_space :: "char \<Rightarrow> bool" where
  "is_space c =
     (c \<in> set [CHR '' '', CHR 0x09, CHR 0x0A, CHR 0x0B, CHR 0x0C, CHR 0x0D,
               CHR 0x1C, CHR 0x1D, CHR 0x1E, CHR 0x1F, CHR 0x85, CHR 0xA0])"

definition strip :: "string \<Rightarrow> string" where
  "strip s = rev (dropWhile is_space (rev (dropWhile is_space s)))"

text \<open>
  Werkzeug takes a request for a websocket handshake when the \<^verbatim>\<open>Connection\<close> header
  lists \<^verbatim>\<open>upgrade\<close> and the \<^verbatim>\<open>Upgrade\<close> header is \<^verbatim>\<open>websocket\<close>, both without
  regard to case.
\<close>

definition websocket_upgrade :: "request \<Rightarrow> bool" where
  "websocket_upgrade req =
     (list_ex (\<lambda>v. strip v = ''upgrade'') (split_on (CHR '','') (lower (header req ''Connection'')))
      \<and> lower (header req ''Upgrade'') = ''websocket'')"

text \<open>
  \<^verbatim>\<open>request.args\<close>: the query string is cut at every \<^verbatim>\<open>&\<close>, an empty piece is
  dropped, each other piece is cut at its first \<^verbatim>\<open>=\<close>, and in both halves a
  \<^verbatim>\<open>+\<close> stands for a space and \<^verbatim>\<open>%\<close> with two hexadecimal digits for the byte
  they spell. \<^verbatim>\<open>request.args.get(key)\<close> is the first value under the key.
\<close>

definition hex_value :: "char \<Rightarrow> nat option" where
  "hex_value c = map_of (zip ''0123456789abcdefABCDEF'' ([0..<16] @ [10..<16])) c"

fun unquote_plus :: "string \<Rightarrow> string" where
  "unquote_plus [] = []"
| "unquote_plus [c] = (if c = CHR ''+'' then '' '' else [c])"
| "unquote_plus [c, d] =
     (if c = CHR ''+'' then CHR '' '' # unquote_plus [d] else c # unquote_plus [d])"
| "unquote_plus (c # d # e # cs) =
     (if c = CHR ''+'' then CHR '' '' # unquote_plus (d # e # cs)
      else if c = CHR ''%'' then
        (case (hex_value d, hex_value e) of
           (Some h, Some l) \<Rightarrow> char_of (16 * h + l) # unquote_plus cs
         | other \<Rightarrow> c # unquote_plus (d # e # cs))
      else c # unquote_plus (d # e # cs))"

definition parse_pair :: "string \<Rightarrow> string \<times> string" where
  "parse_pair s =
     (unquote_plus (takeWhile (\<lambda>c. c \<noteq> CHR ''='') s),
      unquote_plus (drop 1 (dropWhile (\<lambda>c. c \<noteq> CHR ''='') s)))"

definition args :: "request \<Rightarrow> (string \<times> string) list" where
  "args req = map parse_pair (filter (\<lambda>s. s \<noteq> []) (split_on (CHR ''&'') (query_string req)))"

definition query_arg :: "request \<Rightarrow> string \<Rightarrow> string option" where
  "query_arg req key = map_of (args req) key"

text \<open>
  A response is Flask's \<^verbatim>\<open>Response\<close> object: \<^verbatim>\<open>status_code\<close>, the
  \<^verbatim>\<open>Content-Type\<close> header, the \<^verbatim>\<open>Allow\<close> header as the set of methods it lists,
  and the body \<^verbatim>\<open>data\<close>.
\<close>

record response =
  status_code :: nat
  content_type :: string
  allow :: "string set"
  data :: string


text \<open>
  An exception raised while a view runs: Jinja2 failing on a directive of a template, or
  an HTTP error such as the \<^verbatim>\<open>NotFound\<close> of a missing static file. The module raises
  none itself.
\<close>

datatype error = TemplateError string | HTTPException nat

text \<open>A view returns a string or a response object.\<close>

datatype view_result = Text string | Object response

text \<open>
  Everything mutable that code running inside a request could read or change (the
  session, application globals, files, other services) is one value of a type \<open>'w\<close>,
  passed in and returned. The libraries' parts that the module does not determine are
  the fields of a record:
  \<^item> \<open>directive\<close>: what Jinja2 renders for a template from its first directive on, given
    the request and the state; it may fail and may change the state;
  \<^item> \<open>static_file\<close>: the response that serves a file of the folder \<^verbatim>\<open>static\<close> beside
    the module, if the folder has a file of that name;
  \<^item> \<open>error_body\<close>: the page Werkzeug produces for an HTTP error status;
  \<^item> \<open>debugger_resource\<close>: the response of Werkzeug's debugger for one of its own
    files (style sheet, script, images), by name;
  \<^item> \<open>debugger_command\<close>: the debugger's answer to any other command sent to it
    (authentication, console input), if it accepts the command; it may change the state;
  \<^item> \<open>debugger_console\<close>: the debugger's answer to a request for its console page.
\<close>

record 'w framework =
  directive :: "string \<Rightarrow> request \<Rightarrow> 'w \<Rightarrow> (error + string) \<times> 'w"
  static_file :: "string \<Rightarrow> request \<Rightarrow> 'w \<Rightarrow> response option"
  error_body :: "nat \<Rightarrow> string"
  debugger_resource :: "string \<Rightarrow> response"
  debugger_command :: "request \<Rightarrow> 'w \<Rightarrow> (response \<times> 'w) option"
  debugger_console :: "request \<Rightarrow> 'w \<Rightarrow> response \<times> 'w"

subsection \<open>\<^verbatim>\<open>render_template_string\<close>\<close>

text \<open>
  Jinja2's lexer first normalises the source: every line break (\<^verbatim>\<open>\r\n\<close>, \<^verbatim>\<open>\r\<close> or
  \<^verbatim>\<open>\n\<close>) becomes \<^verbatim>\<open>\n\<close>, and, as \<^verbatim>\<open>keep_trailing_newline\<close> is off by default,
  one line break at the very end of the source is dropped.
\<close>

fun normalize_newlines :: "string \<Rightarrow> string" where
  "normalize_newlines [] = []"
| "normalize_newlines [c] = (if c = CHR 0x0D then [CHR 0x0A] else [c])"
| "normalize_newlines (c # d # cs) =
     (if c = CHR 0x0D \<and> d = CHR 0x0A then CHR 0x0A # normalize_newlines cs
      else if c = CHR 0x0D then CHR 0x0A # normalize_newlines (d # cs)
      else c # normalize_newlines (d # cs))"

definition strip_trailing_newline :: "string \<Rightarrow> string" where
  "strip_trailing_newline s = (if s \<noteq> [] \<and> last s = CHR 0x0A then butlast s else s)"

definition jinja_source :: "string \<Rightarrow> string" where
  "jinja_source s = strip_trailing_newline (normalize_newlines s)"

text \<open>
  With Flask's default delimiters a directive opens with \<^verbatim>\<open>{{\<close> (expression),
  \<^verbatim>\<open>{%\<close> (statement) or \<^verbatim>\<open>{#\<close> (comment). The lexer looks for the first opener;
  the text before it is template data.
\<close>

definition opens_directive :: "char \<Rightarrow> char \<Rightarrow> bool" where
  "opens_directive c d = (c = CHR ''{'' \<and> (d = CHR ''{'' \<or> d = CHR ''%'' \<or> d = CHR ''#''))"

fun find_directive :: "string \<Rightarrow> (string \<times> string) option" where
  "find_directive (c # d # cs) =
     (if opens_directive c d then Some ([], c # d # cs)
      else case find_directive (d # cs) of
             None \<Rightarrow> None
           | Some (pre, rest) \<Rightarrow> Some (c # pre, rest))"
| "find_directive cs = None"

text \<open>
  Rendering copies template data to the output as it is. A template without a directive
  is data as a whole; otherwise the data before the first directive is followed by
  whatever Jinja2 makes of the rest.
\<close>

definition render_template_string ::
    "'w framework \<Rightarrow> string \<Rightarrow> request \<Rightarrow> 'w \<Rightarrow> (error + string) \<times> 'w" where
  "render_template_string fw source req w =
     (let src = jinja_source source in
      case find_directive src of
        None \<Rightarrow> (Inr src, w)
      | Some (pre, rest) \<Rightarrow>
          (case directive fw rest req w of
             (Inl e, w') \<Rightarrow> (Inl e, w')
           | (Inr out, w') \<Rightarrow> (Inr (pre @ out), w')))"

subsection \<open>The view function (app.py, lines 6 to 28)\<close>

definition index :: "'w framework \<Rightarrow> request \<Rightarrow> 'w \<Rightarrow> (error + string) \<times> 'w" where
  "index fw req w = render_template_string fw index_template req w"

subsection \<open>The URL map (app.py, lines 3 and 5)\<close>

datatype endpoint = Static | Index

record rule =
  rule_text :: string
  rule_methods :: "string set"
  rule_endpoint :: endpoint
  provide_automatic_options :: bool
  rule_websocket :: bool

text \<open>
  \<^verbatim>\<open>add_url_rule(rule, methods=None)\<close>, which \<^verbatim>\<open>app.route\<close> calls: without
  \<^verbatim>\<open>methods\<close> a rule listens for \<^verbatim>\<open>GET\<close>. Flask adds \<^verbatim>\<open>OPTIONS\<close>, answered by
  itself, unless the view handles it, and Werkzeug adds \<^verbatim>\<open>HEAD\<close> to every rule that
  has \<^verbatim>\<open>GET\<close>. A rule is for plain HTTP unless it is declared a websocket rule.
\<close>

definition add_url_rule :: "string \<Rightarrow> string list option \<Rightarrow> endpoint \<Rightarrow> rule" where
  "add_url_rule r methods e =
     (let ms = (case methods of None \<Rightarrow> {''GET''} | Some l \<Rightarrow> set l);
          automatic = (''OPTIONS'' \<notin> ms);
          ms1 = (if automatic then insert ''OPTIONS'' ms else ms);
          ms2 = (if ''GET'' \<in> ms1 \<and> ''HEAD'' \<notin> ms1 then insert ''HEAD'' ms1 else ms1)
      in \<lparr>rule_text = r, rule_methods = ms2, rule_endpoint = e,
          provide_automatic_options = automatic, rule_websocket = False\<rparr>)"

text \<open>
  \<^verbatim>\<open>Flask(__name__)\<close> creates the application with its static folder set to
  \<^verbatim>\<open>static\<close>, and for it registers a rule of its own.
\<close>

definition Flask :: "rule list" where
  "Flask = [add_url_rule ''/static/<path:filename>'' None Static]"

text \<open>The module adds one rule, \<^verbatim>\<open>@app.route('/')\<close> on \<^verbatim>\<open>index\<close>.\<close>

definition url_map :: "rule list" where
  "url_map = Flask @ [add_url_rule ''/'' None Index]"

text \<open>
  Matching a path against a rule. Outside a variable part the rule and the path agree
  character by character. The rules here have at most one variable part, a
  \<^verbatim>\<open>path\<close> converter at the end of the rule: it takes the rest of the path, which
  must not be empty and must not start with a slash. The result is the value of the
  variable part (empty for a rule without one). Werkzeug's redirects for a path with
  repeated slashes are not part of the model.
\<close>

fun match_rule :: "string \<Rightarrow> string \<Rightarrow> string option" where
  "match_rule [] p = (if p = [] then Some [] else None)"
| "match_rule (r # rs) p =
     (if r = CHR ''<'' then
        (case p of [] \<Rightarrow> None | c # cs \<Rightarrow> if c = CHR ''/'' then None else Some p)
      else
        (case p of [] \<Rightarrow> None | c # cs \<Rightarrow> if r = c then match_rule rs cs else None))"

text \<open>
  The matcher goes through the rules. A rule that matches the path but not the method
  adds its methods to the allowed ones; a rule that matches path and method but is not
  for the kind of request (websocket handshake or plain HTTP) is noted as a mismatch.
  When no rule is left the result is \<^verbatim>\<open>MethodNotAllowed\<close> if some rule matched the
  path only, else \<^verbatim>\<open>WebsocketMismatch\<close> if a mismatch was noted, and
  \<^verbatim>\<open>NotFound\<close> otherwise.
\<close>

datatype routing_error = NotFound | MethodNotAllowed "string set" | WebsocketMismatch

fun match_rules ::
    "rule list \<Rightarrow> string \<Rightarrow> string \<Rightarrow> bool \<Rightarrow> string set \<Rightarrow> bool
      \<Rightarrow> (string set \<times> bool) + rule \<times> string" where
  "match_rules [] p m ws seen mismatch = Inl (seen, mismatch)"
| "match_rules (r # rs) p m ws seen mismatch =
     (case match_rule (rule_text r) p of
        None \<Rightarrow> match_rules rs p m ws seen mismatch
      | Some arg \<Rightarrow>
          if m \<notin> rule_methods r then match_rules rs p m ws (seen \<union> rule_methods r) mismatch
          else if rule_websocket r \<noteq> ws then match_rules rs p m ws seen True
          else Inr (r, arg))"

definition match_url ::
    "rule list \<Rightarrow> string \<Rightarrow> string \<Rightarrow> bool \<Rightarrow> routing_error + rule \<times> string" where
  "match_url rules p m ws =
     (case match_rules rules p m ws {} False of
        Inr found \<Rightarrow> Inr found
      | Inl (seen, mismatch) \<Rightarrow>
          if seen \<noteq> {} then Inl (MethodNotAllowed seen)
          else if mismatch then Inl WebsocketMismatch
          else Inl NotFound)"

fun allowed_methods :: "rule list \<Rightarrow> string \<Rightarrow> string set" where
  "allowed_methods [] p = {}"
| "allowed_methods (r # rs) p =
     (case match_rule (rule_text r) p of
        None \<Rightarrow> allowed_methods rs p
      | Some arg \<Rightarrow> rule_methods r \<union> allowed_methods rs p)"

subsection \<open>Request dispatch\<close>

text \<open>
  The view of Flask's static rule serves the named file, or raises \<^verbatim>\<open>NotFound\<close>.
\<close>

definition send_static_file ::
    "'w framework \<Rightarrow> string \<Rightarrow> request \<Rightarrow> 'w \<Rightarrow> (error + view_result) \<times> 'w" where
  "send_static_file fw filename req w =
     (case static_file fw filename req w of
        None \<Rightarrow> (Inl (HTTPException 404), w)
      | Some resp \<Rightarrow> (Inr (Object resp), w))"

definition view_functions ::
    "endpoint \<Rightarrow> 'w framework \<Rightarrow> string \<Rightarrow> request \<Rightarrow> 'w \<Rightarrow> (error + view_result) \<times> 'w" where
  "view_functions e fw arg req w =
     (case e of
        Static \<Rightarrow> send_static_file fw arg req w
      | Index \<Rightarrow> (case index fw req w of (rv, w') \<Rightarrow> (map_sum id Text rv, w')))"

text \<open>
  A string returned by a view becomes a response with status 200 and Flask's default
  content type; an HTTP error becomes Werkzeug's page for its status (404 for
  \<^verbatim>\<open>NotFound\<close>, 405 for \<^verbatim>\<open>MethodNotAllowed\<close>, 400 for \<^verbatim>\<open>WebsocketMismatch\<close>), any
  other exception the page for status 500.
\<close>

definition make_response :: "view_result \<Rightarrow> response" where
  "make_response rv =
     (case rv of
        Text s \<Rightarrow>
          \<lparr>status_code = 200, content_type = ''text/html; charset=utf-8'', allow = {}, data = s\<rparr>
      | Object resp \<Rightarrow> resp)"

definition http_exception :: "'w framework \<Rightarrow> nat \<Rightarrow> string set \<Rightarrow> response" where
  "http_exception fw code allowed =
     \<lparr>status_code = code, content_type = ''text/html; charset=utf-8'', allow = allowed,
      data = error_body fw code\<rparr>"

definition handle_exception :: "'w framework \<Rightarrow> error \<Rightarrow> response" where
  "handle_exception fw e =
     (case e of
        HTTPException code \<Rightarrow> http_exception fw code {}
      | TemplateError msg \<Rightarrow> http_exception fw 500 {})"

definition make_default_options_response :: "string \<Rightarrow> response" where
  "make_default_options_response p =
     \<lparr>status_code = 200, content_type = ''text/html; charset=utf-8'',
      allow = allowed_methods url_map p, data = []\<rparr>"

definition dispatch_request :: "'w framework \<Rightarrow> request \<Rightarrow> 'w \<Rightarrow> response \<times> 'w" where
  "dispatch_request fw req w =
     (case match_url url_map (path req) (http_method req) (websocket_upgrade req) of
        Inl NotFound \<Rightarrow> (http_exception fw 404 {}, w)
      | Inl (MethodNotAllowed ms) \<Rightarrow> (http_exception fw 405 ms, w)
      | Inl WebsocketMismatch \<Rightarrow> (http_exception fw 400 {}, w)
      | Inr (r, arg) \<Rightarrow>
          if provide_automatic_options r \<and> http_method req = ''OPTIONS''
          then (make_default_options_response (path req), w)
          else (case view_functions (rule_endpoint r) fw arg req w of
                  (Inl e, w') \<Rightarrow> (handle_exception fw e, w')
                | (Inr rv, w') \<Rightarrow> (make_response rv, w')))"

text \<open>The answer to a \<^verbatim>\<open>HEAD\<close> request is sent without its body.\<close>

definition get_app_iter :: "request \<Rightarrow> response \<Rightarrow> response" where
  "get_app_iter req resp = (if http_method req = ''HEAD'' then resp\<lparr>data := []\<rparr> else resp)"

definition wsgi_app :: "'w framework \<Rightarrow> request \<Rightarrow> 'w \<Rightarrow> response \<times> 'w" where
  "wsgi_app fw req w =
     (case dispatch_request fw req w of (resp, w') \<Rightarrow> (get_app_iter req resp, w'))"

subsection \<open>Start-up (app.py, lines 30 and 31)\<close>

record server =
  host :: string
  port :: int
  debug :: bool

text \<open>
  \<^verbatim>\<open>Flask.run(host=None, port=None, debug=None)\<close>: an argument left out falls back to
  the loopback address, to port 5000 and to the application's debug flag, which is off.
\<close>

definition run :: "bool option \<Rightarrow> string option \<Rightarrow> int option \<Rightarrow> server" where
  "run d h p =
     \<lparr>host = (case h of None \<Rightarrow> ''127.0.0.1'' | Some x \<Rightarrow> x),
      port = (case p of None \<Rightarrow> 5000 | Some x \<Rightarrow> x),
      debug = (case d of None \<Rightarrow> False | Some x \<Rightarrow> x)\<rparr>"

text \<open>
  Executing the module with \<^verbatim>\<open>__name__\<close> bound to \<open>name\<close>: the server is started only
  when the module is the program.
\<close>

definition main :: "string \<Rightarrow> server option" where
  "main name =
     (if name = ''__main__'' then Some (run (Some True) (Some ''0.0.0.0'') (Some 5000))
      else None)"

text \<open>
  The configuration as the specification words it: \<^verbatim>\<open>host\<close> default "0.0.0.0",
  \<^verbatim>\<open>port\<close> default 5000, \<^verbatim>\<open>debug_mode\<close> default on.
\<close>

definition spec_configuration :: server where
  "spec_configuration = \<lparr>host = ''0.0.0.0'', port = 5000, debug = True\<rparr>"

subsection \<open>The development server\<close>

text \<open>
  With \<^verbatim>\<open>debug\<close> on, \<^verbatim>\<open>run\<close> wraps the application in Werkzeug's
  \<^verbatim>\<open>DebuggedApplication\<close>, with its console enabled at the path \<^verbatim>\<open>/console\<close>. The
  debugger answers by itself a request whose query string sets \<^verbatim>\<open>__debugger__\<close> to
  \<^verbatim>\<open>yes\<close> and names a command it accepts (\<^verbatim>\<open>cmd=resource\<close> with a file name
  \<^verbatim>\<open>f\<close>, or one of its other commands), and otherwise a request for the console
  path. Every other request goes to the application.
\<close>

definition debugger_answer :: "'w framework \<Rightarrow> request \<Rightarrow> 'w \<Rightarrow> (response \<times> 'w) option" where
  "debugger_answer fw req w =
     (if query_arg req ''__debugger__'' = Some ''yes'' then
        (case query_arg req ''f'' of
           None \<Rightarrow> debugger_command fw req w
         | Some name \<Rightarrow>
             if query_arg req ''cmd'' = Some ''resource'' \<and> name \<noteq> []
             then Some (debugger_resource fw name, w)
             else debugger_command fw req w)
      else if path req = ''/console'' then Some (debugger_console fw req w)
      else None)"

definition DebuggedApplication :: "'w framework \<Rightarrow> request \<Rightarrow> 'w \<Rightarrow> response \<times> 'w" where
  "DebuggedApplication fw req w =
     (case debugger_answer fw req w of
        None \<Rightarrow> wsgi_app fw req w
      | Some (resp, w') \<Rightarrow> (get_app_iter req resp, w'))"


text \<open>The server started with a configuration answers one request.\<close>

definition run_simple :: "server \<Rightarrow> 'w framework \<Rightarrow> request \<Rightarrow> 'w \<Rightarrow> response \<times> 'w" where
  "run_simple cfg fw req w =
     (if debug cfg then DebuggedApplication fw req w else wsgi_app fw req w)"


subsection \<open>Lines of the page\<close>


subsection \<open>Concrete runs\<close>






section \<open>Properties\<close>

subsection \<open>Auxiliary facts\<close>

lemma find_directive_index_template: "find_directive index_template = None"
  by code_simp

lemma jinja_source_index_template: "jinja_source index_template = index_template"
  by code_simp


lemma render_index_template:
  "render_template_string fw index_template req w = (Inr index_template, w)"
  by (simp add: render_template_string_def jinja_source_index_template
      find_directive_index_template)

lemma index_returns_template: "index fw req w = (Inr index_template, w)"
  by (simp add: index_def render_index_template)








lemma view_functions_state: "snd (view_functions e fw arg req w) = w"
  by (cases e)
    (simp_all add: view_functions_def send_static_file_def index_returns_template
      split: option.splits)

lemma dispatch_request_state: "snd (dispatch_request fw req w) = w"
proof (cases "match_url url_map (path req) (http_method req) (websocket_upgrade req)")
  case (Inl e)
  then show ?thesis by (cases e) (simp_all add: dispatch_request_def)
next
  case (Inr found)
  obtain r arg where f: "found = (r, arg)" by (cases found)
  obtain res w' where v: "view_functions (rule_endpoint r) fw arg req w = (res, w')"
    by (cases "view_functions (rule_endpoint r) fw arg req w")
  have "w' = w" using view_functions_state [of "rule_endpoint r" fw arg req w] v by simp
  with Inr f v show ?thesis by (cases res) (simp_all add: dispatch_request_def)
qed

lemma wsgi_app_state: "snd (wsgi_app fw req w) = w"
  using dispatch_request_state [of fw req w]
  by (cases "dispatch_request fw req w") (simp add: wsgi_app_def)






lemma run_simple_debugger_file:
  "debug cfg \<Longrightarrow> query_arg req ''__debugger__'' = Some ''yes'' \<Longrightarrow>
   query_arg req ''cmd'' = Some ''resource'' \<Longrightarrow> query_arg req ''f'' = Some name \<Longrightarrow>
   name \<noteq> [] \<Longrightarrow>
   run_simple cfg fw req w = (get_app_iter req (debugger_resource fw name), w)"
  by (simp add: run_simple_def DebuggedApplication_def debugger_answer_def)

lemma main_configuration: "main ''__main__'' = Some cfg \<Longrightarrow> cfg = spec_configuration"
  by (auto simp add: main_def run_def spec_configuration_def)









lemma template_no_expression: "\<not> sublist ''{{'' index_template"
  by code_simp

lemma template_no_statement: "\<not> sublist ''{%'' index_template"
  by code_simp

lemma template_no_comment: "\<not> sublist ''{#'' index_template"
  by code_simp





subsection \<open>The page route\<close>




subsection \<open>Contents of the page\<close>


subsection \<open>Other paths\<close>




subsection \<open>Other methods on the page route\<close>




subsection \<open>Repeated requests\<close>




subsection \<open>Effects of the view\<close>

text \<open>
  C6. The view \<^verbatim>\<open>index\<close> has no side effect and reads no state: it returns the state
  it was given, raises nothing, and its result is the same for every request, every
  state and every behaviour of the libraries.
\<close>

theorem index_no_side_effects:
  "snd (index fw req w) = w \<and>
   fst (index fw req w) = Inr index_template \<and>
   fst (index fw req w) = fst (index fw' req' w')"
  by (simp add: index_returns_template)

subsection \<open>Start-up configuration\<close>

text \<open>
  C7. Run as the program, the module starts the server with host \<^verbatim>\<open>0.0.0.0\<close>, port 5000
  and debug mode on, which is the configuration the specification states.
\<close>

theorem main_starts_server:
  "main ''__main__'' = Some \<lparr>host = ''0.0.0.0'', port = 5000, debug = True\<rparr> \<and>
   main ''__main__'' = Some spec_configuration"
  by (simp add: main_def run_def spec_configuration_def)

subsection \<open>Rendering the template\<close>

text \<open>
  C8. The template literal contains none of the directive openers \<^verbatim>\<open>{{\<close>,
  \<^verbatim>\<open>{%\<close> and \<^verbatim>\<open>{#\<close>, and \<^verbatim>\<open>render_template_string\<close> returns it character
  for character, without consulting the directive evaluator and without changing the
  state.
\<close>

theorem template_renders_verbatim:
  "\<not> sublist ''{{'' index_template \<and> \<not> sublist ''{%'' index_template \<and>
   \<not> sublist ''{#'' index_template \<and>
   render_template_string fw index_template req w = (Inr index_template, w)"
  using template_no_expression template_no_statement template_no_comment
  by (simp only: render_index_template simp_thms)

subsection \<open>Leading and trailing whitespace of the page\<close>


subsection \<open>Independence of the rest of the request\<close>




end
